theory Spec2Isabelle
  imports Complex_Main "HOL-Library.Sublist"
begin

section \<open>JavaScript numbers\<close>

text \<open>
  The components compute with JavaScript numbers. A finite number is modelled by the real
  it denotes (rounding and overflow are left out, and the two zeros are not told apart);
  the three special values of the arithmetic are kept, since division by zero does not
  raise in JavaScript: it returns an infinity, or NaN for \<open>0 / 0\<close>. A comparison with
  NaN is false.
\<close>

datatype jsnum = Num real | PosInf | NegInf | NaN

fun js_add :: "jsnum \<Rightarrow> jsnum \<Rightarrow> jsnum" where
  "js_add (Num a) (Num b) = Num (a + b)"
| "js_add NaN _ = NaN"
| "js_add _ NaN = NaN"
| "js_add PosInf NegInf = NaN"
| "js_add NegInf PosInf = NaN"
| "js_add PosInf _ = PosInf"
| "js_add _ PosInf = PosInf"
| "js_add NegInf _ = NegInf"
| "js_add _ NegInf = NegInf"

fun js_div :: "jsnum \<Rightarrow> jsnum \<Rightarrow> jsnum" where
  "js_div (Num a) (Num b) =
     (if b \<noteq> 0 then Num (a / b)
      else if 0 < a then PosInf
      else if a < 0 then NegInf
      else NaN)"
| "js_div (Num a) PosInf = Num 0"
| "js_div (Num a) NegInf = Num 0"
| "js_div PosInf (Num b) = (if 0 \<le> b then PosInf else NegInf)"
| "js_div NegInf (Num b) = (if 0 \<le> b then NegInf else PosInf)"
| "js_div _ _ = NaN"

fun js_less :: "jsnum \<Rightarrow> jsnum \<Rightarrow> bool" where
  "js_less (Num a) (Num b) = (a < b)"
| "js_less NaN _ = False"
| "js_less _ NaN = False"
| "js_less PosInf _ = False"
| "js_less _ PosInf = True"
| "js_less _ NegInf = False"
| "js_less NegInf _ = True"

section \<open>Signal extractor (BlinkVerification.tsx)\<close>

text \<open>
  \<open>faceapi.Point\<close> has the two coordinates \<open>x\<close> and \<open>y\<close>; the fields are named
  \<open>pt_x\<close> and \<open>pt_y\<close> here.
\<close>

record point =
  pt_x :: real
  pt_y :: real

text \<open>
  \<^verbatim>\<open>Math.sqrt(Math.pow(p2.x - p1.x, 2) + Math.pow(p2.y - p1.y, 2))\<close>
\<close>

definition distance :: "point \<Rightarrow> point \<Rightarrow> real" where
  "distance p1 p2 = sqrt ((pt_x p2 - pt_x p1)\<^sup>2 + (pt_y p2 - pt_y p1)\<^sup>2)"

text \<open>
  \<open>calculateEAR\<close> reads \<open>eye[0]\<close> to \<open>eye[5]\<close>. Reading a coordinate of a missing
  element throws a TypeError, which is the result \<open>None\<close>; the division itself never
  throws.
\<close>

definition calculateEAR :: "point list \<Rightarrow> jsnum option" where
  "calculateEAR eye =
     (if length eye < 6 then None
      else
        let A = distance (eye ! 1) (eye ! 5);
            B = distance (eye ! 2) (eye ! 4);
            C = distance (eye ! 0) (eye ! 3)
        in Some (js_div (Num (A + B)) (Num (2 * C))))"

text \<open>
  The specification's \<open>\<parallel>p - q\<parallel>\<close>: the Euclidean norm of the difference of the two points
  in the plane, written with the norm of the complex numbers.
\<close>

definition to_plane :: "point \<Rightarrow> complex" where
  "to_plane p = Complex (pt_x p) (pt_y p)"

definition euclid :: "point \<Rightarrow> point \<Rightarrow> real" where
  "euclid p q = cmod (to_plane p - to_plane q)"

definition mkPoint :: "real \<Rightarrow> real \<Rightarrow> point" where
  "mkPoint a b = \<lparr> pt_x = a, pt_y = b \<rparr>"

section \<open>Blink detector (BlinkVerification.tsx)\<close>

text \<open>
  The component keeps its counters in React state. A render is one call of the component
  function, and \<^verbatim>\<open>const [isActive, setIsActive] = useState(false)\<close> binds, in that call,
  the constant \<open>isActive\<close> to the value the state has at that render; likewise for
  \<open>blinkCount\<close>, \<open>isEyeClosed\<close>, \<open>lastBlinkTime\<close> and \<open>status\<close>. A setter changes
  the value that the next render will see; it does not change the constants of a render
  that has happened, nor what a function created in that render reads through them. Only
  a setter called with a function (\<open>setBlinkCount(prev => \<dots>)\<close>) and a ref
  (\<open>videoRef.current\<close>, \<open>intervalRef.current\<close>) reach the current value.
  \<open>blink_ui\<close> is the set of the five values of one render.
\<close>

datatype blink_status = Waiting | Detecting | Completed | Failed

record blink_ui =
  isActive :: bool
  blinkCount :: nat
  isEyeClosed :: bool
  lastBlinkTime :: int
  status :: blink_status

datatype blink_toast =
    BlinkDetected nat
  | BlinkSuccessful
  | BlinkTimedOut
  | CameraDenied

text \<open>
  The component: its React state \<open>ui\<close>, the video element, the camera stream, and the
  timers. A timer callback is a closure of the render in which \<open>startBlinkDetection\<close>
  was called, so a timer is stored as the \<open>blink_ui\<close> that its callback reads:
  \<open>intervalRef\<close> is the polling interval (\<open>None\<close> when it is cleared), \<open>failTimers\<close>
  are the pending 30 second timers and \<open>completeTimer\<close> the pending one second timer
  that calls \<open>onBlinkComplete\<close>.
\<close>

record blink_component =
  ui :: blink_ui
  videoRef :: bool
  cameraOn :: bool
  intervalRef :: "blink_ui option"
  failTimers :: "blink_ui list"
  completeTimer :: bool
  blinkCompleteCalled :: bool
  toasts :: "blink_toast list"

definition requiredBlinks :: nat where
  "requiredBlinks = 3"

definition blinkThreshold :: jsnum where
  "blinkThreshold = Num 0.25"

text \<open>The first render: the initial values of the five \<open>useState\<close> calls.\<close>

definition first_render :: blink_ui where
  "first_render =
     \<lparr> isActive = False, blinkCount = 0, isEyeClosed = False, lastBlinkTime = 0,
       status = Waiting \<rparr>"

definition blink_initial :: blink_component where
  "blink_initial =
     \<lparr> ui = first_render, videoRef = True, cameraOn = False, intervalRef = None,
       failTimers = [], completeTimer = False, blinkCompleteCalled = False, toasts = [] \<rparr>"

definition stopCamera :: "blink_component \<Rightarrow> blink_component" where
  "stopCamera c =
     c \<lparr> cameraOn := False, ui := (ui c) \<lparr> isActive := False \<rparr>, intervalRef := None \<rparr>"

text \<open>
  \<open>startBlinkDetection\<close>, called in the render \<open>r\<close>: it sets the status, installs the
  polling interval and the 30 second timer. Both callbacks read \<open>r\<close>.
\<close>

definition startBlinkDetection :: "blink_ui \<Rightarrow> blink_component \<Rightarrow> blink_component" where
  "startBlinkDetection r c =
     c \<lparr> ui := (ui c) \<lparr> status := Detecting \<rparr>,
         intervalRef := Some r,
         failTimers := failTimers c @ [r] \<rparr>"

text \<open>
  \<open>startCamera\<close> is called by \<open>loadModels\<close>, which the effect
  \<^verbatim>\<open>useEffect(() => { loadModels(); \<dots> }, [])\<close> calls. With its empty dependency list the
  effect is the one of the first render: \<open>loadModels\<close>, \<open>startCamera\<close> and the
  \<open>startBlinkDetection\<close> that it reaches are the functions of the first render, and
  the constants they read are \<open>first_render\<close>.
\<close>

definition startCamera :: "bool \<Rightarrow> blink_component \<Rightarrow> blink_component" where
  "startCamera granted c =
     (if granted then
        (if videoRef c
         then startBlinkDetection first_render
                (c \<lparr> cameraOn := True, ui := (ui c) \<lparr> isActive := True \<rparr> \<rparr>)
         else c)
      else c \<lparr> toasts := toasts c @ [CameraDenied] \<rparr>)"

text \<open>
  The button "Try Again" / "Start Verification" is rendered while the status is
  \<open>failed\<close> or \<open>waiting\<close>; its handler belongs to the render that shows it.
\<close>

definition retryClick :: "blink_component \<Rightarrow> blink_component" where
  "retryClick c =
     (if status (ui c) = Failed \<or> status (ui c) = Waiting then
        startBlinkDetection (ui c)
          (c \<lparr> ui := (ui c) \<lparr> blinkCount := 0, status := Waiting \<rparr> \<rparr>)
      else c)"

record detection =
  leftEye :: "point list"
  rightEye :: "point list"

definition avgEAR :: "detection \<Rightarrow> jsnum option" where
  "avgEAR d =
     (case calculateEAR (leftEye d) of
        None \<Rightarrow> None
      | Some leftEAR \<Rightarrow>
          (case calculateEAR (rightEye d) of
             None \<Rightarrow> None
           | Some rightEAR \<Rightarrow> Some (js_div (js_add leftEAR rightEAR) (Num 2))))"

text \<open>
  The eye-open edge: \<open>setBlinkCount\<close> with a function of the previous value (the only
  read of the current state), the completion at \<open>requiredBlinks\<close>,
  \<open>setLastBlinkTime\<close>, \<open>setIsEyeClosed(false)\<close>, and the toast, which prints the
  \<open>blinkCount\<close> of the render \<open>r\<close>.
\<close>

definition countBlink :: "blink_ui \<Rightarrow> int \<Rightarrow> blink_component \<Rightarrow> blink_component" where
  "countBlink r currentTime c =
     (let newCount = blinkCount (ui c) + 1;
          done = (requiredBlinks \<le> newCount)
      in c \<lparr> ui := (ui c) \<lparr> blinkCount := newCount,
                             status := (if done then Completed else status (ui c)),
                             lastBlinkTime := currentTime,
                             isEyeClosed := False \<rparr>,
             completeTimer := (if done then True else completeTimer c),
             toasts := toasts c @ [BlinkDetected (blinkCount r + 1)] \<rparr>)"

text \<open>
  The decision of one tick on the average EAR. \<open>isEyeClosed\<close> and \<open>lastBlinkTime\<close>
  are the constants of the render \<open>r\<close>.
\<close>

definition blinkDecide :: "blink_ui \<Rightarrow> jsnum \<Rightarrow> int \<Rightarrow> blink_component \<Rightarrow> blink_component" where
  "blinkDecide r ear currentTime c =
     (if js_less ear blinkThreshold then
        (if isEyeClosed r then c
         else if 500 < currentTime - lastBlinkTime r
           then c \<lparr> ui := (ui c) \<lparr> isEyeClosed := True \<rparr> \<rparr>
           else c)
      else
        (if isEyeClosed r then
           (if 200 < currentTime - lastBlinkTime r then countBlink r currentTime c else c)
         else c))"

text \<open>
  The callback of the polling interval that \<open>startBlinkDetection\<close> installed in the
  render \<open>r\<close>. It returns at once unless the video element exists and \<open>isActive\<close>
  (of \<open>r\<close>) holds; a tick without a face, or whose computation throws, changes nothing.
\<close>

definition blinkTick ::
  "blink_ui \<Rightarrow> detection option \<Rightarrow> int \<Rightarrow> blink_component \<Rightarrow> blink_component" where
  "blinkTick r det currentTime c =
     (if videoRef c then
        (if isActive r then
           (case det of
              None \<Rightarrow> c
            | Some d \<Rightarrow>
                (case avgEAR d of
                   None \<Rightarrow> c
                 | Some ear \<Rightarrow> blinkDecide r ear currentTime c))
         else c)
      else c)"

text \<open>The callback of the 30 second timer installed in the render \<open>r\<close>.\<close>

definition blinkTimeout :: "blink_ui \<Rightarrow> blink_component \<Rightarrow> blink_component" where
  "blinkTimeout r c =
     (if blinkCount r < requiredBlinks \<and> status r = Detecting
      then (stopCamera (c \<lparr> ui := (ui c) \<lparr> status := Failed \<rparr> \<rparr>))
             \<lparr> toasts := toasts c @ [BlinkTimedOut] \<rparr>
      else c)"

text \<open>The one second timer after completion.\<close>

definition blinkCompleteTimeout :: "blink_component \<Rightarrow> blink_component" where
  "blinkCompleteTimeout c =
     (if completeTimer c
      then (stopCamera c) \<lparr> completeTimer := False, blinkCompleteCalled := True,
                             toasts := toasts c @ [BlinkSuccessful] \<rparr>
      else c)"

text \<open>
  The polling interval fires once per sample, for as long as it is installed. A sample
  is the detection of that frame and the value of \<open>Date.now()\<close>.
\<close>

fun blinkRun :: "(detection option \<times> int) list \<Rightarrow> blink_component \<Rightarrow> blink_component" where
  "blinkRun [] c = c"
| "blinkRun ((det, t) # rest) c =
     (case intervalRef c of
        None \<Rightarrow> blinkRun rest c
      | Some r \<Rightarrow> blinkRun rest (blinkTick r det t c))"

text \<open>The oldest pending 30 second timer fires.\<close>

definition fireFailTimer :: "blink_component \<Rightarrow> blink_component" where
  "fireFailTimer c =
     (case failTimers c of
        [] \<Rightarrow> c
      | r # rest \<Rightarrow> blinkTimeout r (c \<lparr> failTimers := rest \<rparr>))"

text \<open>
  A frame whose two eyes have the aspect ratio \<open>e\<close>: the corners one unit apart, the
  lids \<open>e\<close> apart.
\<close>

definition eyeWithEAR :: "real \<Rightarrow> point list" where
  "eyeWithEAR e =
     [mkPoint 0 0, mkPoint (1/3) e, mkPoint (2/3) e, mkPoint 1 0, mkPoint (2/3) 0,
      mkPoint (1/3) 0]"

definition frameWithEAR :: "real \<Rightarrow> detection option" where
  "frameWithEAR e = Some \<lparr> leftEye = eyeWithEAR e, rightEye = eyeWithEAR e \<rparr>"

text \<open>
  What can happen to the mounted component: the camera request of \<open>loadModels\<close> is
  answered, the polling interval fires on a frame, one of the timers fires, or the button
  is clicked.
\<close>

datatype blink_event =
    CameraAnswer bool
  | PollTick "detection option" int
  | FailTimerFires
  | CompleteTimerFires
  | RetryClicked

fun blinkStep :: "blink_component \<Rightarrow> blink_event \<Rightarrow> blink_component" where
  "blinkStep c (CameraAnswer granted) = startCamera granted c"
| "blinkStep c (PollTick det t) = blinkRun [(det, t)] c"
| "blinkStep c FailTimerFires = fireFailTimer c"
| "blinkStep c CompleteTimerFires = blinkCompleteTimeout c"
| "blinkStep c RetryClicked = retryClick c"

definition blinkEvents :: "blink_event list \<Rightarrow> blink_component" where
  "blinkEvents es = foldl blinkStep blink_initial es"

text \<open>
  The invariant of the mounted component: the installed callbacks were created in renders
  that were not active and not detecting, and nothing has been counted.
\<close>

definition stale :: "blink_component \<Rightarrow> bool" where
  "stale c =
     ((case intervalRef c of None \<Rightarrow> True | Some r \<Rightarrow> \<not> isActive r) \<and>
      list_all (\<lambda>r. status r \<noteq> Detecting) (failTimers c) \<and>
      (if isActive (ui c) then status (ui c) = Detecting
       else status (ui c) \<in> {Waiting, Detecting}) \<and>
      blinkCount (ui c) = 0 \<and>
      \<not> completeTimer c \<and>
      \<not> blinkCompleteCalled c)"

section \<open>Audit log (table \<open>audit_logs\<close>)\<close>

text \<open>
  A face descriptor is a \<open>Float32Array\<close>. An audit row is the \<open>user_id\<close> with the
  \<open>action\<close> and its \<open>details\<close>.
\<close>

type_synonym descriptor = "jsnum list"

datatype audit_details =
    FACE_REGISTERED bool nat nat
  | FACE_VERIFICATION_FAILED string
  | FACE_VERIFICATION_SUCCESS jsnum jsnum nat
  | VOTE_SUBMITTED string string string

datatype audit_log = AuditLog string audit_details

section \<open>Face matcher (FaceVerification.tsx)\<close>

datatype verification_status = FV_waiting | FV_verifying | FV_success | FV_failed

text \<open>The React state of the component.\<close>

record face_ui =
  fv_isActive :: bool
  isVerifying :: bool
  storedDescriptor :: "descriptor option"
  verificationStatus :: verification_status

text \<open>
  What the callback of the polling interval reads: \<open>isActive\<close> and
  \<open>storedDescriptor\<close> of the render in which \<open>startVerification\<close> was called, and
  the local variable \<open>attempts\<close> of that call, which the callback increments. In the
  component, \<open>fv_closure\<close> holds these variables of the last call of
  \<open>startVerification\<close>, and \<open>fv_intervalRef\<close> tells whether its interval is
  installed (\<open>clearInterval\<close> resets it).
\<close>

record verify_closure =
  cl_isActive :: bool
  cl_storedDescriptor :: descriptor
  attempts :: nat

datatype face_toast = VerificationTimedOut | FaceVerified | NoFaceData | FaceCameraDenied

record face_component =
  fv_ui :: face_ui
  fv_videoRef :: bool
  fv_cameraOn :: bool
  fv_closure :: "verify_closure option"
  fv_intervalRef :: bool
  fv_audit :: "audit_log list"
  fv_toasts :: "face_toast list"
  successTimer :: bool
  verificationCompleteCalled :: bool



definition fv_stopCamera :: "face_component \<Rightarrow> face_component" where
  "fv_stopCamera c =
     c \<lparr> fv_cameraOn := False, fv_ui := (fv_ui c) \<lparr> fv_isActive := False \<rparr>,
         fv_intervalRef := False \<rparr>"



text \<open>The button "Try Again", rendered while the status is \<open>failed\<close>.\<close>

definition tryAgainClick :: "face_component \<Rightarrow> face_component" where
  "tryAgainClick c =
     (if verificationStatus (fv_ui c) = FV_failed
      then c \<lparr> fv_ui := (fv_ui c) \<lparr> verificationStatus := FV_waiting, isVerifying := False \<rparr> \<rparr>
      else c)"

text \<open>
  The detector's answer on one frame: no face, a face with its descriptor, or an
  exception.
\<close>

datatype face_detection = NoFace | Face descriptor | DetectorThrows


text \<open>The timer that follows a success: after 1500ms, \<open>onVerificationComplete(true)\<close>.\<close>

definition successTimeout :: "face_component \<Rightarrow> face_component" where
  "successTimeout c =
     (if successTimer c
      then (fv_stopCamera c) \<lparr> successTimer := False, verificationCompleteCalled := True \<rparr>
      else c)"



text \<open>
  The component once the models and the stored descriptor \<open>sd\<close> are loaded and the camera
  runs: the state in which the user can click "Verify Face".
\<close>

definition face_ready :: "descriptor \<Rightarrow> face_component" where
  "face_ready sd =
     \<lparr> fv_ui = \<lparr> fv_isActive = True, isVerifying = False, storedDescriptor = Some sd,
                 verificationStatus = FV_waiting \<rparr>,
       fv_videoRef = True, fv_cameraOn = True, fv_closure = None, fv_intervalRef = False,
       fv_audit = [],
       fv_toasts = [], successTimer = False, verificationCompleteCalled = False \<rparr>"



section \<open>Enrollment (FaceRegistration.tsx)\<close>

text \<open>
  \<open>desc[i]\<close> on a typed array: the element, or \<open>undefined\<close> beyond its length, which
  \<open>sum += desc[i]\<close> turns into NaN.
\<close>

definition js_nth :: "descriptor \<Rightarrow> nat \<Rightarrow> jsnum" where
  "js_nth desc i = (if i < length desc then desc ! i else NaN)"

text \<open>
  The averaging loop over the list \<open>ds\<close>:
  \<^verbatim>\<open>
  const avgDescriptor = new Float32Array(ds[0].length);
  for (let i = 0; i < avgDescriptor.length; i++) {
    let sum = 0;
    for (const desc of ds) { sum += desc[i]; }
    avgDescriptor[i] = sum / ds.length;
  }\<close>
  \<open>ds[0].length\<close> throws a TypeError when \<open>ds\<close> is empty: the result \<open>None\<close>.
\<close>

definition averageDescriptors :: "descriptor list \<Rightarrow> descriptor option" where
  "averageDescriptors ds =
     (case ds of
        [] \<Rightarrow> None
      | d0 # _ \<Rightarrow>
          Some (map (\<lambda>i. js_div (foldl (\<lambda>sum desc. js_add sum (js_nth desc i)) (Num 0) ds)
                              (Num (real (length ds))))
                    [0..<length d0]))"

text \<open>The React state of the component.\<close>

record registration_ui =
  isCameraActive :: bool
  faceDescriptor :: "descriptor option"
  isProcessing :: bool
  capturedImages :: "string list"
  currentStep :: nat
  allDescriptors :: "descriptor list"

definition maxSteps :: nat where
  "maxSteps = 3"

text \<open>The object handed to \<open>supabase.from('profiles').upsert\<close>.\<close>

record profile_upsert =
  up_user_id :: string
  up_email :: string
  up_face_descriptor :: descriptor
  up_face_image_url :: string
  up_is_verified :: bool

datatype registration_toast =
    NoFaceDetected
  | FailedToSaveImage
  | StepCaptured nat
  | FailedToSaveFaceData
  | AllAnglesCaptured
  | FailedToProcessFace

text \<open>
  The component with what it has sent: the uploaded files (user, step, time), the upsert
  requests, the audit rows, and the pending timer that calls \<open>onComplete\<close>.
\<close>

record registration_component =
  reg_ui :: registration_ui
  reg_cameraOn :: bool
  reg_toasts :: "registration_toast list"
  uploads :: "(string \<times> nat \<times> int) list"
  profile_upserts :: "profile_upsert list"
  reg_audit :: "audit_log list"
  onCompleteTimer :: bool

text \<open>
  What one click on "Capture Angle" meets: the two refs, the detector's answer, the blob
  and data URL of the canvas, \<open>Date.now()\<close>, the answer of the upload, the public URL of
  the file, the e-mail of the signed-in user, and the answer of the upsert.
\<close>

record capture_input =
  refsPresent :: bool
  detected :: face_detection
  blobPresent :: bool
  imageDataUrl :: string
  captureTime :: int
  uploadError :: bool
  publicUrl :: string
  userEmail :: "string option"
  dbError :: bool

definition reg_stopCamera :: "registration_component \<Rightarrow> registration_component" where
  "reg_stopCamera c =
     c \<lparr> reg_cameraOn := False, reg_ui := (reg_ui c) \<lparr> isCameraActive := False \<rparr> \<rparr>"

definition setProcessing :: "bool \<Rightarrow> registration_component \<Rightarrow> registration_component" where
  "setProcessing b c = c \<lparr> reg_ui := (reg_ui c) \<lparr> isProcessing := b \<rparr> \<rparr>"

definition reg_toast :: "registration_toast \<Rightarrow> registration_component \<Rightarrow> registration_component" where
  "reg_toast t c = c \<lparr> reg_toasts := reg_toasts c @ [t] \<rparr>"

text \<open>
  The last step of \<open>captureFace\<close>, after the upload of the final angle. \<open>r\<close> is the
  render in which the button was clicked: \<open>allDescriptors\<close> is its constant, to which
  the \<open>setAllDescriptors\<close> of this very call has added nothing.
\<close>

definition saveProfile ::
  "string \<Rightarrow> capture_input \<Rightarrow> registration_ui \<Rightarrow> registration_component \<Rightarrow>
   registration_component" where
  "saveProfile userId inp r c =
     (case averageDescriptors (allDescriptors r) of
        None \<Rightarrow> c
      | Some avgDescriptor \<Rightarrow>
          (let c' = c \<lparr> profile_upserts := profile_upserts c @
                       [\<lparr> up_user_id = userId,
                          up_email = (case userEmail inp of None \<Rightarrow> '''' | Some e \<Rightarrow> e),
                          up_face_descriptor = avgDescriptor,
                          up_face_image_url = publicUrl inp,
                          up_is_verified = True \<rparr>] \<rparr>
           in if dbError inp
              then setProcessing False (reg_toast FailedToSaveFaceData c')
              else (reg_stopCamera
                     (setProcessing False
                       ((reg_toast AllAnglesCaptured
                          (c' \<lparr> reg_ui := (reg_ui c') \<lparr> faceDescriptor := Some avgDescriptor \<rparr> \<rparr>))
                        \<lparr> reg_audit := reg_audit c' @
                            [AuditLog userId
                               (FACE_REGISTERED True maxSteps (length (allDescriptors r)))] \<rparr>)))
                   \<lparr> onCompleteTimer := True \<rparr>))"

text \<open>
  \<open>captureFace\<close>, the handler of the button in the current render \<open>reg_ui c\<close>. The
  setters with a function argument (\<open>setCapturedImages\<close>, \<open>setAllDescriptors\<close>,
  \<open>setCurrentStep\<close>) update the state; \<open>currentStep\<close> and \<open>allDescriptors\<close> read in
  the body are the constants of the render.
\<close>

definition captureFace ::
  "string \<Rightarrow> capture_input \<Rightarrow> registration_component \<Rightarrow> registration_component" where
  "captureFace userId inp c =
     (let r = reg_ui c in
      if refsPresent inp then
        (case detected inp of
           DetectorThrows \<Rightarrow> setProcessing False (reg_toast FailedToProcessFace c)
         | NoFace \<Rightarrow> setProcessing False (reg_toast NoFaceDetected c)
         | Face descriptor \<Rightarrow>
             (if blobPresent inp then
                (let c1 = c \<lparr> reg_ui := (reg_ui c)
                             \<lparr> isProcessing := True,
                               capturedImages := capturedImages (reg_ui c) @ [imageDataUrl inp],
                               allDescriptors := allDescriptors (reg_ui c) @ [descriptor] \<rparr>,
                             uploads := uploads c @ [(userId, currentStep r, captureTime inp)] \<rparr>
                 in if uploadError inp
                    then setProcessing False (reg_toast FailedToSaveImage c1)
                    else
                      (let c2 = reg_toast (StepCaptured (currentStep r)) c1
                       in if currentStep r < maxSteps
                          then setProcessing False
                                 (c2 \<lparr> reg_ui := (reg_ui c2)
                                        \<lparr> currentStep := currentStep (reg_ui c2) + 1 \<rparr> \<rparr>)
                          else saveProfile userId inp r c2))
              else setProcessing True c))
      else c)"

text \<open>"Start Over".\<close>

definition retakePhoto :: "registration_component \<Rightarrow> registration_component" where
  "retakePhoto c =
     c \<lparr> reg_ui := (reg_ui c) \<lparr> capturedImages := [], allDescriptors := [], currentStep := 1,
                              faceDescriptor := None, isCameraActive := True \<rparr>,
         reg_cameraOn := True \<rparr>"

text \<open>The component after the models are loaded and the camera is started.\<close>

definition registration_started :: registration_component where
  "registration_started =
     \<lparr> reg_ui = \<lparr> isCameraActive = True, faceDescriptor = None, isProcessing = False,
                  capturedImages = [], currentStep = 1, allDescriptors = [] \<rparr>,
       reg_cameraOn = True, reg_toasts = [], uploads = [], profile_upserts = [],
       reg_audit = [], onCompleteTimer = False \<rparr>"

text \<open>The clicks of an enrollment, one after the other, each in the render that follows the last.\<close>

definition enroll ::
  "string \<Rightarrow> capture_input list \<Rightarrow> registration_component \<Rightarrow> registration_component" where
  "enroll userId inps c = foldl (\<lambda>c' inp. captureFace userId inp c') c inps"

text \<open>A click that goes well on a frame with the descriptor \<open>d\<close>.\<close>

definition goodCapture :: "descriptor \<Rightarrow> capture_input" where
  "goodCapture d =
     \<lparr> refsPresent = True, detected = Face d, blobPresent = True,
       imageDataUrl = ''data:image/jpeg'', captureTime = 1762165000000, uploadError = False,
       publicUrl = ''https://store/face.jpg'', userEmail = Some ''voter@example.org'',
       dbError = False \<rparr>"

section \<open>Profiles (table \<open>profiles\<close>) and the page (Index)\<close>

text \<open>
  A row of \<open>profiles\<close>, with the columns the code reads or writes. \<open>face_descriptor\<close>
  (JSONB) and \<open>is_verified\<close> (BOOLEAN DEFAULT FALSE) may be NULL.
\<close>

record profile =
  profile_user_id :: string
  email :: string
  full_name :: "string option"
  face_descriptor :: "descriptor option"
  face_image_url :: "string option"
  is_verified :: "bool option"


datatype AppState =
    Auth
  | Face_registration
  | Face_verification
  | Blink_verification
  | Voting
  | Complete

datatype index_toast =
    FailedToLoadProfile
  | FailedToCreateProfile
  | FailedToLoadUserData
  | SignedOut
  | FailedToSignOut
  | FaceVerificationFailed

record index_state =
  user :: "string option"
  appState :: AppState
  userProfile :: "profile option"
  isLoading :: bool
  index_toasts :: "index_toast list"


definition index_toast :: "index_toast \<Rightarrow> index_state \<Rightarrow> index_state" where
  "index_toast t s = s \<lparr> index_toasts := index_toasts s @ [t] \<rparr>"












text \<open>
  What the page renders, from its JSX: nothing but the spinner while \<open>isLoading\<close>; then
  the component of the current step (FaceRegistration, FaceVerification and
  VotingInterface only with a user), and the "Sign Out" button with a user.
\<close>

datatype component =
    AuthForm
  | FaceRegistration
  | FaceVerification
  | BlinkVerification
  | VotingInterface
  | CompleteCard

definition rendered :: "index_state \<Rightarrow> component \<Rightarrow> bool" where
  "rendered s el =
     (if isLoading s then False
      else case el of
             AuthForm \<Rightarrow> appState s = Auth
           | FaceRegistration \<Rightarrow> appState s = Face_registration \<and> user s \<noteq> None
           | FaceVerification \<Rightarrow> appState s = Face_verification \<and> user s \<noteq> None
           | BlinkVerification \<Rightarrow> appState s = Blink_verification
           | VotingInterface \<Rightarrow> appState s = Voting \<and> user s \<noteq> None
           | CompleteCard \<Rightarrow> appState s = Complete)"





section \<open>Votes (table \<open>votes\<close>) and the ballot (VotingInterface)\<close>

text \<open>A row of \<open>votes\<close>, with the columns that the insert of \<open>submitVote\<close> gives.\<close>

record vote =
  vote_user_id :: string
  election_id :: string
  selected_option :: string
  face_verified :: bool
  blink_verified :: bool
  ip_address :: string
  user_agent :: string

definition voteKey :: "vote \<Rightarrow> string \<times> string" where
  "voteKey v = (vote_user_id v, election_id v)"

text \<open>
  The insert into the table, with its constraint \<open>UNIQUE(user_id, election_id)\<close>: a row
  whose pair is already there is refused with the code 23505 of a unique violation, and
  the table is left as it was. \<open>fault\<close> is any other refusal of the store (network,
  policy, a malformed column), with its code. The result is the \<open>error\<close> of the answer and
  the table.
\<close>

definition insertVote :: "string option \<Rightarrow> vote list \<Rightarrow> vote \<Rightarrow> string option \<times> vote list" where
  "insertVote fault table row =
     (case fault of
        Some code \<Rightarrow> (Some code, table)
      | None \<Rightarrow>
          (if voteKey row \<in> set (map voteKey table)
           then (Some ''23505'', table)
           else (None, table @ [row])))"

record election =
  el_id :: string
  title :: string
  options :: "string list"

text \<open>The React state of the component.\<close>

record voting_ui =
  selectedElection :: "election option"
  selectedOption :: string
  isSubmitting :: bool
  userVotes :: "string set"

text \<open>
  The component with the table \<open>votes\<close> behind it, the inserts it has requested, its audit
  rows, its toasts, and the pending timer that calls \<open>onVoteComplete\<close>.
\<close>

record voting_component =
  vi_ui :: voting_ui
  votes :: "vote list"
  insertRequests :: "vote list"
  vi_audit :: "audit_log list"
  vi_toasts :: "string list"
  voteCompleteTimer :: bool

text \<open>
  What \<open>submitVote\<close> meets: the answer of \<open>getUserIP\<close> (an address, or \<open>unknown\<close>),
  \<open>navigator.userAgent\<close>, a refusal of the store, and an exception of the insert or of
  the audit insert.
\<close>

record submit_input =
  userIP :: string
  userAgent :: string
  storeFault :: "string option"
  insertThrows :: bool
  auditThrows :: bool

definition vi_toast :: "string \<Rightarrow> voting_component \<Rightarrow> voting_component" where
  "vi_toast t c = c \<lparr> vi_toasts := vi_toasts c @ [t] \<rparr>"

definition setSubmitting :: "bool \<Rightarrow> voting_component \<Rightarrow> voting_component" where
  "setSubmitting b c = c \<lparr> vi_ui := (vi_ui c) \<lparr> isSubmitting := b \<rparr> \<rparr>"

text \<open>The object that \<open>submitVote\<close> inserts.\<close>

definition voteRow :: "string \<Rightarrow> submit_input \<Rightarrow> election \<Rightarrow> string \<Rightarrow> vote" where
  "voteRow userId inp el option =
     \<lparr> vote_user_id = userId,
       election_id = el_id el,
       selected_option = option,
       face_verified = True,
       blink_verified = True,
       ip_address = userIP inp,
       user_agent = userAgent inp \<rparr>"

definition submitVote :: "string \<Rightarrow> submit_input \<Rightarrow> voting_component \<Rightarrow> voting_component" where
  "submitVote userId inp c =
     (case selectedElection (vi_ui c) of
        None \<Rightarrow> vi_toast ''Please select an option to vote'' c
      | Some el \<Rightarrow>
          (if selectedOption (vi_ui c) = [] then vi_toast ''Please select an option to vote'' c
           else if insertThrows inp
             then setSubmitting False (vi_toast ''Failed to submit vote'' c)
           else
             (let row = voteRow userId inp el (selectedOption (vi_ui c));
                  answer = insertVote (storeFault inp) (votes c) row;
                  c1 = c \<lparr> insertRequests := insertRequests c @ [row], votes := snd answer \<rparr>
              in case fst answer of
                   Some code \<Rightarrow>
                     (if code = ''23505''
                      then setSubmitting False
                             (vi_toast ''You have already voted in this election'' c1)
                      else setSubmitting False (vi_toast ''Failed to submit vote'' c1))
                 | None \<Rightarrow>
                     (if auditThrows inp
                      then setSubmitting False (vi_toast ''Failed to submit vote'' c1)
                      else setSubmitting False
                             ((vi_toast ''Vote submitted successfully!'' c1)
                                \<lparr> vi_audit := vi_audit c1 @
                                    [AuditLog userId
                                       (VOTE_SUBMITTED (el_id el) (title el)
                                          (selectedOption (vi_ui c)))],
                                  vi_ui := (vi_ui c1)
                                    \<lparr> userVotes := insert (el_id el) (userVotes (vi_ui c1)) \<rparr>,
                                  voteCompleteTimer := True \<rparr>)))))"

text \<open>
  The whole application at one moment: the page, the last face-verification session, the
  last blink session and the ballot. \<open>castVote\<close> is the click on "Cast Vote", which
  exists while the page renders the ballot.
\<close>

record app =
  page :: index_state
  faceSession :: face_component
  blinkSession :: blink_component
  ballot :: voting_component

definition castVote :: "submit_input \<Rightarrow> app \<Rightarrow> app" where
  "castVote inp a =
     (if rendered (page a) VotingInterface
      then (case user (page a) of
              None \<Rightarrow> a
            | Some userId \<Rightarrow> a \<lparr> ballot := submitVote userId inp (ballot a) \<rparr>)
      else a)"

text \<open>The rows that a click has added to the table.\<close>

definition votesInserted :: "submit_input \<Rightarrow> app \<Rightarrow> vote list" where
  "votesInserted inp a = drop (length (votes (ballot a))) (votes (ballot (castVote inp a)))"

text \<open>Concrete data for the examples.\<close>

definition enrolledProfile :: profile where
  "enrolledProfile =
     \<lparr> profile_user_id = ''voter'', email = ''voter@example.org'', full_name = None,
       face_descriptor = Some [Num 1], face_image_url = Some ''https://store/face.jpg'',
       is_verified = Some True \<rparr>"


definition councilElection :: election where
  "councilElection =
     \<lparr> el_id = ''e1'', title = ''Student Council President 2025'',
       options = [''Alice Johnson'', ''Bob Smith'', ''Carol Davis''] \<rparr>"

definition plainSubmit :: submit_input where
  "plainSubmit =
     \<lparr> userIP = ''203.0.113.7'', userAgent = ''Mozilla/5.0'', storeFault = None,
       insertThrows = False, auditThrows = False \<rparr>"

definition votingPage :: "string \<Rightarrow> index_state" where
  "votingPage uid =
     \<lparr> user = Some uid, appState = Voting, userProfile = Some enrolledProfile,
       isLoading = False, index_toasts = [] \<rparr>"

definition ballotWith :: "string \<Rightarrow> vote list \<Rightarrow> voting_component" where
  "ballotWith option table =
     \<lparr> vi_ui = \<lparr> selectedElection = Some councilElection, selectedOption = option,
                 isSubmitting = False, userVotes = {} \<rparr>,
       votes = table, insertRequests = [], vi_audit = [], vi_toasts = [],
       voteCompleteTimer = False \<rparr>"

text \<open>
  Two moments of the application with a ballot on the page: one after a successful face
  session and a completed blink session, one where both sessions have failed.
\<close>

definition appVerified :: app where
  "appVerified =
     \<lparr> page = votingPage ''voter'',
       faceSession = (face_ready [Num 1])
          \<lparr> fv_ui := (fv_ui (face_ready [Num 1])) \<lparr> verificationStatus := FV_success \<rparr> \<rparr>,
       blinkSession = blink_initial
          \<lparr> ui := first_render \<lparr> blinkCount := 3, status := Completed \<rparr> \<rparr>,
       ballot = ballotWith ''Alice Johnson'' [] \<rparr>"

definition appUnverified :: app where
  "appUnverified =
     \<lparr> page = votingPage ''other'',
       faceSession = (face_ready [Num 1])
          \<lparr> fv_ui := (fv_ui (face_ready [Num 1])) \<lparr> verificationStatus := FV_failed \<rparr> \<rparr>,
       blinkSession = blink_initial \<lparr> ui := first_render \<lparr> status := Failed \<rparr> \<rparr>,
       ballot = ballotWith ''Bob Smith'' [] \<rparr>"

text \<open>What the user does during an enrollment: a capture click, or "Start Over".\<close>

datatype registration_event = Capture capture_input | StartOver

fun registrationStep ::
  "string \<Rightarrow> registration_component \<Rightarrow> registration_event \<Rightarrow> registration_component" where
  "registrationStep userId c (Capture inp) = captureFace userId inp c"
| "registrationStep userId c StartOver = retakePhoto c"

definition registration :: "string \<Rightarrow> registration_event list \<Rightarrow> registration_component" where
  "registration userId evs = foldl (registrationStep userId) registration_started evs"

text \<open>
  The invariant of an enrollment: all steps before the current one have left a
  descriptor.
\<close>

definition reg_inv :: "registration_component \<Rightarrow> bool" where
  "reg_inv c = (currentStep (reg_ui c) \<le> length (allDescriptors (reg_ui c)) + 1 \<and>
               1 \<le> currentStep (reg_ui c) \<and> currentStep (reg_ui c) \<le> maxSteps)"

section \<open>Properties of the signal extractor\<close>

lemma distance_euclid: "distance p q = euclid p q"
proof -
  have "(pt_x q - pt_x p)\<^sup>2 = (pt_x p - pt_x q)\<^sup>2"
    by (simp add: power2_commute)
  moreover have "(pt_y q - pt_y p)\<^sup>2 = (pt_y p - pt_y q)\<^sup>2"
    by (simp add: power2_commute)
  ultimately show ?thesis
    by (simp add: distance_def euclid_def to_plane_def cmod_def)
qed

lemma euclid_nonneg: "0 \<le> euclid p q"
  by (simp add: euclid_def)

text \<open>
  Claim C9, as amended. For six eye points \<open>p0 \<dots> p5\<close>, \<open>calculateEAR\<close> returns
  \<open>(\<parallel>p1 - p5\<parallel> + \<parallel>p2 - p4\<parallel>) / (2 \<parallel>p0 - p3\<parallel>)\<close> when the horizontal distance
  \<open>\<parallel>p0 - p3\<parallel>\<close> is not zero. When it is zero nothing is thrown and the result is not
  always NaN: it is \<open>+Infinity\<close> as soon as one of the two vertical distances is positive,
  and NaN only when both are zero.
\<close>

theorem calculateEAR_formula:
  "calculateEAR [p0, p1, p2, p3, p4, p5] =
     Some (if euclid p0 p3 \<noteq> 0
           then Num ((euclid p1 p5 + euclid p2 p4) / (2 * euclid p0 p3))
           else if 0 < euclid p1 p5 + euclid p2 p4 then PosInf
           else NaN)"
proof -
  have "\<not> euclid p1 p5 + euclid p2 p4 < 0"
    using euclid_nonneg [of p1 p5] euclid_nonneg [of p2 p4] by linarith
  then show ?thesis
    by (simp add: calculateEAR_def distance_euclid Let_def)
qed

text \<open>
  The claim as the specification states it fails: with \<open>p0 = p3\<close> and an open lid the
  result is \<open>+Infinity\<close>, which is neither an error nor NaN.
\<close>

theorem calculateEAR_zero_width_counterexample:
  "distance (mkPoint 0 0) (mkPoint 0 0) = 0 \<and>
   calculateEAR [mkPoint 0 0, mkPoint 0 1, mkPoint 0 1, mkPoint 0 0, mkPoint 0 0, mkPoint 0 0]
     = Some PosInf \<and>
   calculateEAR [mkPoint 0 0, mkPoint 0 1, mkPoint 0 1, mkPoint 0 0, mkPoint 0 0, mkPoint 0 0]
     \<noteq> Some NaN \<and>
   calculateEAR [mkPoint 0 0, mkPoint 0 1, mkPoint 0 1, mkPoint 0 0, mkPoint 0 0, mkPoint 0 0]
     \<noteq> None"
  by (simp add: calculateEAR_def distance_def mkPoint_def Let_def)

section \<open>Properties of the blink detector\<close>

lemma avgEAR_frameWithEAR: "avgEAR (the (frameWithEAR e)) = Some (Num \<bar>e\<bar>)"
  by (simp add: frameWithEAR_def avgEAR_def eyeWithEAR_def calculateEAR_def distance_def
      mkPoint_def Let_def)

lemma blinkTick_inactive: "\<not> isActive r \<Longrightarrow> blinkTick r det t c = c"
  by (simp add: blinkTick_def)

lemma blinkRun_inactive:
  "intervalRef c = Some r \<Longrightarrow> \<not> isActive r \<Longrightarrow> blinkRun samples c = c"
  by (induction samples) (auto simp: blinkTick_inactive)

lemma mount_interval: "intervalRef (startCamera True blink_initial) = Some first_render"
  by (simp add: startCamera_def blink_initial_def startBlinkDetection_def)

lemma blinkRun_mount:
  "blinkRun samples (startCamera True blink_initial) = startCamera True blink_initial"
  by (rule blinkRun_inactive [OF mount_interval]) (simp add: first_render_def)

lemma blinkTimeout_stale: "status r \<noteq> Detecting \<Longrightarrow> blinkTimeout r c = c"
  by (simp add: blinkTimeout_def)

text \<open>
  An eye-open sample is counted only by a callback whose own render had
  \<open>isEyeClosed\<close> set; the \<open>setIsEyeClosed(true)\<close> of an earlier tick does not reach it.
\<close>

lemma blinkDecide_needs_closed_render:
  "\<not> isEyeClosed r \<Longrightarrow> blinkCount (ui (blinkDecide r ear t c)) = blinkCount (ui c)"
  by (simp add: blinkDecide_def)

text \<open>
  Claim C4 at its own input. The component is mounted, the camera is granted, and the
  polling interval sees the average EAR 0.35, 0.10, 0.35 on frames 600ms apart. The claim
  asks for \<open>blinkCount = 1\<close>; the callback, which reads the \<open>isActive\<close> and
  \<open>isEyeClosed\<close> of the first render, counts nothing.
\<close>

theorem blink_open_closed_open_not_counted:
  "blinkCount (ui (blinkRun
      [(frameWithEAR 0.35, 1762165000000),
       (frameWithEAR 0.10, 1762165000600),
       (frameWithEAR 0.35, 1762165001200)]
      (startCamera True blink_initial))) = 0"
  by (simp add: blinkRun_mount)
     (simp add: startCamera_def blink_initial_def startBlinkDetection_def first_render_def)

text \<open>
  Claim C5 at its own input. Whatever the frames of the 30 seconds were, when the timer
  that the mount installed fires, the detector is still \<open>detecting\<close>, the camera is
  still on and the polling interval is still installed: the callback compares the
  \<open>status\<close> of the first render, which is \<open>waiting\<close>.
\<close>

theorem blink_timeout_does_not_fail:
  "status (ui (fireFailTimer (blinkRun samples (startCamera True blink_initial)))) = Detecting \<and>
   blinkCount (ui (fireFailTimer (blinkRun samples (startCamera True blink_initial)))) = 0 \<and>
   cameraOn (fireFailTimer (blinkRun samples (startCamera True blink_initial))) \<and>
   intervalRef (fireFailTimer (blinkRun samples (startCamera True blink_initial)))
     = Some first_render"
  by (simp add: blinkRun_mount)
     (simp add: fireFailTimer_def blinkTimeout_def startCamera_def blink_initial_def
       startBlinkDetection_def first_render_def)

subsection \<open>No sequence of events counts a blink\<close>

lemma stale_initial: "stale blink_initial"
  by (simp add: stale_def blink_initial_def first_render_def)

lemma stale_step: "stale c \<Longrightarrow> stale (blinkStep c e)"
proof (cases e)
  case (CameraAnswer g)
  assume "stale c"
  then show ?thesis using CameraAnswer
    by (auto simp: stale_def startCamera_def startBlinkDetection_def first_render_def
        split: option.splits)
next
  case (PollTick det t)
  assume "stale c"
  then show ?thesis using PollTick
    by (auto simp: stale_def blinkTick_inactive split: option.splits)
next
  case FailTimerFires
  assume "stale c"
  then show ?thesis using FailTimerFires
    by (auto simp: stale_def fireFailTimer_def blinkTimeout_stale split: list.splits)
next
  case CompleteTimerFires
  assume "stale c"
  then show ?thesis using CompleteTimerFires
    by (auto simp: stale_def blinkCompleteTimeout_def)
next
  case RetryClicked
  assume "stale c"
  then show ?thesis using RetryClicked
    by (auto simp: stale_def retryClick_def startBlinkDetection_def
        split: option.splits if_splits)
qed

lemma stale_foldl: "stale c \<Longrightarrow> stale (foldl blinkStep c es)"
  by (induction es arbitrary: c) (auto simp: stale_step)

text \<open>
  From the mount on, whatever the camera answers, the frames show, the timers do and the
  user clicks: no blink is counted, the detector neither completes nor fails, and
  \<open>onBlinkComplete\<close> is not called.
\<close>

lemma blink_never_counts:
  "blinkCount (ui (blinkEvents es)) = 0 \<and>
   status (ui (blinkEvents es)) \<noteq> Completed \<and>
   status (ui (blinkEvents es)) \<noteq> Failed \<and>
   \<not> blinkCompleteCalled (blinkEvents es)"
proof -
  have "stale (blinkEvents es)"
    unfolding blinkEvents_def by (rule stale_foldl [OF stale_initial])
  then show ?thesis
    by (auto simp: stale_def split: if_splits)
qed

section \<open>Properties of the face matcher\<close>













section \<open>Properties of the enrollment\<close>

lemma average_first_two:
  "averageDescriptors [[Num 1, Num 1, Num 1], [Num 3, Num 3, Num 3]] = Some [Num 2, Num 2, Num 2]"
  by (simp add: averageDescriptors_def js_nth_def upt_rec)

lemma average_all_three:
  "averageDescriptors [[Num 1, Num 1, Num 1], [Num 3, Num 3, Num 3], [Num 5, Num 5, Num 5]]
     = Some [Num 3, Num 3, Num 3]"
  by (simp add: averageDescriptors_def js_nth_def upt_rec)

lemma captureFace_step:
  assumes "currentStep (reg_ui c) < maxSteps"
  shows "captureFace userId (goodCapture d) c =
     c \<lparr> reg_ui := (reg_ui c)
           \<lparr> isProcessing := False,
             capturedImages := capturedImages (reg_ui c) @ [imageDataUrl (goodCapture d)],
             allDescriptors := allDescriptors (reg_ui c) @ [d],
             currentStep := currentStep (reg_ui c) + 1 \<rparr>,
         uploads := uploads c @ [(userId, currentStep (reg_ui c), captureTime (goodCapture d))],
         reg_toasts := reg_toasts c @ [StepCaptured (currentStep (reg_ui c))] \<rparr>"
  using assms
  by (simp add: captureFace_def goodCapture_def Let_def setProcessing_def reg_toast_def)

lemma captureFace_final:
  assumes "\<not> currentStep (reg_ui c) < maxSteps"
    and "refsPresent inp" and "detected inp = Face d" and "blobPresent inp"
    and "\<not> uploadError inp"
    and "averageDescriptors (allDescriptors (reg_ui c)) = Some avg"
  shows "profile_upserts (captureFace userId inp c) =
           profile_upserts c @
             [\<lparr> up_user_id = userId,
                up_email = (case userEmail inp of None \<Rightarrow> [] | Some e \<Rightarrow> e),
                up_face_descriptor = avg,
                up_face_image_url = publicUrl inp,
                up_is_verified = True \<rparr>]"
    and "onCompleteTimer (captureFace userId inp c) = (if dbError inp then onCompleteTimer c else True)"
  using assms
  by (simp_all add: captureFace_def Let_def setProcessing_def reg_toast_def saveProfile_def
      reg_stopCamera_def)

text \<open>
  Three clicks that go well, from the start: what is stored is the mean of the first two
  descriptors. The third is in the state by then, but not in the \<open>allDescriptors\<close> of
  the render whose handler computes the mean.
\<close>

lemma enroll_three:
  "map up_face_descriptor (profile_upserts (enroll userId
      [goodCapture d1, goodCapture d2, goodCapture d3] registration_started)) =
   (case averageDescriptors [d1, d2] of None \<Rightarrow> [] | Some avg \<Rightarrow> [avg])"
proof -
  let ?c1 = "captureFace userId (goodCapture d1) registration_started"
  let ?c2 = "captureFace userId (goodCapture d2) ?c1"
  have s1: "currentStep (reg_ui registration_started) < maxSteps"
    by (simp add: registration_started_def maxSteps_def)
  have c1: "currentStep (reg_ui ?c1) = 2 \<and> allDescriptors (reg_ui ?c1) = [d1] \<and> profile_upserts ?c1 = []"
    by (simp add: captureFace_step [OF s1]) (simp add: registration_started_def)
  then have s2: "currentStep (reg_ui ?c1) < maxSteps" by (simp add: maxSteps_def)
  have c2: "currentStep (reg_ui ?c2) = 3 \<and> allDescriptors (reg_ui ?c2) = [d1, d2] \<and> profile_upserts ?c2 = []"
    by (simp add: captureFace_step [OF s2] c1)
  then have s3: "\<not> currentStep (reg_ui ?c2) < maxSteps" by (simp add: maxSteps_def)
  obtain avg where a: "averageDescriptors [d1, d2] = Some avg"
    by (simp add: averageDescriptors_def)
  have avg_c2: "averageDescriptors (allDescriptors (reg_ui ?c2)) = Some avg"
    using c2 a by simp
  have "profile_upserts (captureFace userId (goodCapture d3) ?c2) =
           profile_upserts ?c2 @
             [\<lparr> up_user_id = userId,
                up_email = (case userEmail (goodCapture d3) of None \<Rightarrow> [] | Some e \<Rightarrow> e),
                up_face_descriptor = avg,
                up_face_image_url = publicUrl (goodCapture d3),
                up_is_verified = True \<rparr>]"
    by (rule captureFace_final(1) [OF s3 _ _ _ _ avg_c2]) (simp_all add: goodCapture_def)
  then show ?thesis
    by (simp add: enroll_def c2 a)
qed

text \<open>
  Claim C8 at its own input. The three captures are \<open>[1,1,1]\<close>, \<open>[3,3,3]\<close> and
  \<open>[5,5,5]\<close>; their mean is \<open>[3,3,3]\<close>, and the descriptor that the final capture
  upserts is \<open>[2,2,2]\<close>.
\<close>

theorem enrollment_stores_mean_of_first_two: "map up_face_descriptor (profile_upserts (enroll ''voter''
     [goodCapture [Num 1, Num 1, Num 1], goodCapture [Num 3, Num 3, Num 3], goodCapture [Num 5, Num 5, Num 5]]
     registration_started)) = [[Num 2, Num 2, Num 2]] \<and>
   averageDescriptors [[Num 1, Num 1, Num 1], [Num 3, Num 3, Num 3], [Num 5, Num 5, Num 5]]
     = Some [Num 3, Num 3, Num 3]"
  by (simp add: enroll_three average_first_two average_all_three)


lemma reg_inv_step: "reg_inv c \<Longrightarrow> reg_inv (registrationStep userId c ev)"
proof (cases ev)
  case (Capture inp)
  assume "reg_inv c"
  then show ?thesis using Capture
    by (auto simp: reg_inv_def captureFace_def Let_def setProcessing_def reg_toast_def
        saveProfile_def reg_stopCamera_def maxSteps_def
        split: face_detection.splits option.splits)
next
  case StartOver
  assume "reg_inv c"
  then show ?thesis using StartOver
    by (simp add: reg_inv_def retakePhoto_def maxSteps_def)
qed

lemma reg_inv_registration: "reg_inv (registration userId evs)"
proof -
  have "reg_inv c \<Longrightarrow> reg_inv (foldl (registrationStep userId) c evs)" for c
    by (induction evs arbitrary: c) (auto simp: reg_inv_step)
  moreover have "reg_inv registration_started"
    by (simp add: reg_inv_def registration_started_def maxSteps_def)
  ultimately show ?thesis by (simp add: registration_def)
qed

lemma final_step_has_descriptors:
  assumes "\<not> currentStep (reg_ui (registration userId evs)) < maxSteps"
  shows "\<exists>avg. averageDescriptors (allDescriptors (reg_ui (registration userId evs))) = Some avg"
proof -
  have "reg_inv (registration userId evs)" by (rule reg_inv_registration)
  then have "allDescriptors (reg_ui (registration userId evs)) \<noteq> []"
    using assms by (auto simp: reg_inv_def maxSteps_def)
  then show ?thesis
    by (auto simp: averageDescriptors_def split: list.splits)
qed




section \<open>Properties of the ballot\<close>

lemma insertVote_cases:
  "insertVote fault table row = (Some code, table') \<Longrightarrow> table' = table"
  by (auto simp: insertVote_def split: option.splits if_splits)

lemma insertVote_snd:
  "snd (insertVote fault table row) = table \<or> snd (insertVote fault table row) = table @ [row]"
  by (auto simp: insertVote_def split: option.splits)



lemma submitVote_votes:
  "votes (submitVote userId inp c) = votes c \<or>
   (\<exists>el. selectedElection (vi_ui c) = Some el \<and>
      votes (submitVote userId inp c) = votes c @ [voteRow userId inp el (selectedOption (vi_ui c))])"
proof (cases "selectedElection (vi_ui c)")
  case None
  then show ?thesis by (simp add: submitVote_def vi_toast_def)
next
  case (Some el)
  let ?row = "voteRow userId inp el (selectedOption (vi_ui c))"
  have "votes (submitVote userId inp c) = votes c \<or>
        votes (submitVote userId inp c) = snd (insertVote (storeFault inp) (votes c) ?row)"
    using Some
    by (auto simp: submitVote_def vi_toast_def setSubmitting_def Let_def split: option.splits)
  then show ?thesis
    using Some insertVote_snd [of "storeFault inp" "votes c" ?row] by auto
qed

lemma votesInserted_cases:
  "votesInserted inp a = [] \<or>
   (\<exists>userId el. votesInserted inp a = [voteRow userId inp el (selectedOption (vi_ui (ballot a)))])"
proof (cases "rendered (page a) VotingInterface")
  case False
  then show ?thesis by (simp add: votesInserted_def castVote_def)
next
  case True
  show ?thesis
  proof (cases "user (page a)")
    case None
    then show ?thesis by (simp add: votesInserted_def castVote_def)
  next
    case (Some userId)
    then have b: "ballot (castVote inp a) = submitVote userId inp (ballot a)"
      using True by (simp add: castVote_def)
    from submitVote_votes [of userId inp "ballot a"] show ?thesis
    proof
      assume "votes (submitVote userId inp (ballot a)) = votes (ballot a)"
      then show ?thesis by (simp add: votesInserted_def b)
    next
      assume "\<exists>el. selectedElection (vi_ui (ballot a)) = Some el \<and>
        votes (submitVote userId inp (ballot a)) =
          votes (ballot a) @ [voteRow userId inp el (selectedOption (vi_ui (ballot a)))]"
      then obtain el where "votes (submitVote userId inp (ballot a)) =
          votes (ballot a) @ [voteRow userId inp el (selectedOption (vi_ui (ballot a)))]"
        by blast
      then have "votesInserted inp a = [voteRow userId inp el (selectedOption (vi_ui (ballot a)))]"
        by (simp add: votesInserted_def b)
      then show ?thesis by blast
    qed
  qed
qed

text \<open>
  Claim C2. Every row that a click on "Cast Vote" adds to \<open>votes\<close> has
  \<open>face_verified = true\<close> and \<open>blink_verified = true\<close>, whatever the states of the last
  face-verification and blink sessions are; so the rows of any two runs carry the same
  flags.
\<close>

theorem vote_flags_constant:
  assumes "row \<in> set (votesInserted inp a)" and "row' \<in> set (votesInserted inp' a')"
  shows "face_verified row = True \<and> blink_verified row = True \<and>
         face_verified row' = face_verified row \<and> blink_verified row' = blink_verified row"
proof -
  have "face_verified row = True \<and> blink_verified row = True"
    using assms(1) votesInserted_cases [of inp a] by (auto simp: voteRow_def)
  moreover have "face_verified row' = True \<and> blink_verified row' = True"
    using assms(2) votesInserted_cases [of inp' a'] by (auto simp: voteRow_def)
  ultimately show ?thesis by simp
qed

theorem vote_flags_constant_witness:
  "voteRow ''voter'' plainSubmit councilElection ''Alice Johnson''
      \<in> set (votesInserted plainSubmit appVerified) \<and>
   voteRow ''other'' plainSubmit councilElection ''Bob Smith''
      \<in> set (votesInserted plainSubmit appUnverified) \<and>
   verificationStatus (fv_ui (faceSession appVerified)) = FV_success \<and>
   status (ui (blinkSession appVerified)) = Completed \<and>
   verificationStatus (fv_ui (faceSession appUnverified)) = FV_failed \<and>
   status (ui (blinkSession appUnverified)) = Failed \<and>
   face_verified (voteRow ''other'' plainSubmit councilElection ''Bob Smith'') = True \<and>
   blink_verified (voteRow ''other'' plainSubmit councilElection ''Bob Smith'') = True \<and>
   face_verified (voteRow ''other'' plainSubmit councilElection ''Bob Smith'') =
     face_verified (voteRow ''voter'' plainSubmit councilElection ''Alice Johnson'') \<and>
   blink_verified (voteRow ''other'' plainSubmit councilElection ''Bob Smith'') =
     blink_verified (voteRow ''voter'' plainSubmit councilElection ''Alice Johnson'')"
proof -
  have h1: "voteRow ''voter'' plainSubmit councilElection ''Alice Johnson''
      \<in> set (votesInserted plainSubmit appVerified)"
    by (simp add: votesInserted_def castVote_def appVerified_def votingPage_def rendered_def
        ballotWith_def submitVote_def plainSubmit_def insertVote_def Let_def
        setSubmitting_def vi_toast_def)
  have h2: "voteRow ''other'' plainSubmit councilElection ''Bob Smith''
      \<in> set (votesInserted plainSubmit appUnverified)"
    by (simp add: votesInserted_def castVote_def appUnverified_def votingPage_def rendered_def
        ballotWith_def submitVote_def plainSubmit_def insertVote_def Let_def
        setSubmitting_def vi_toast_def)
  have s: "verificationStatus (fv_ui (faceSession appVerified)) = FV_success \<and>
   status (ui (blinkSession appVerified)) = Completed \<and>
   verificationStatus (fv_ui (faceSession appUnverified)) = FV_failed \<and>
   status (ui (blinkSession appUnverified)) = Failed"
    by (simp add: appVerified_def appUnverified_def)
  show ?thesis
    using h1 h2 s vote_flags_constant [OF h2 h1] by simp
qed

lemma insertVote_duplicate:
  "voteKey row \<in> set (map voteKey table) \<Longrightarrow>
     insertVote None table row = (Some ''23505'', table)"
  by (simp add: insertVote_def)





section \<open>Properties of the session\<close>













end
